theory Spec2Isabelle
  imports Main "HOL-Library.AList"
begin

section \<open>Python values and exceptions\<close>

text \<open>
  The library is dynamically typed Python. The values that flow through the modelled
  functions are JSON-shaped (the responses of an OpenAI-compatible endpoint), strings,
  and the members of the enumeration \<open>sub_style\<close> of \<open>model_style/alvic.py\<close>.
  A \<open>char\<close> stands for one character of a Python \<open>str\<close>; a line break is
  written \<open>\<newline>\<close> inside a literal. Dictionaries are association lists with
  string keys (what JSON and keyword arguments provide), in insertion order.
\<close>

datatype sub_style = ALPACA | ALPACA_INSTRUCT | VICUNA

datatype pyval =
    PNone
  | PBool bool
  | PInt int
  | PStr string
  | PList "pyval list"
  | PDict "(string \<times> pyval) list"
  | PEnum sub_style

type_synonym pydict = "(string \<times> pyval) list"

text \<open>
  Exceptions are values. \<open>ValueError\<close> and \<open>RuntimeError\<close> carry their message text
  and, where the source passes or formats a value into the exception (a second
  argument, or \<open>repr(response)\<close> appended to the message), that value.
  \<open>External\<close> is any failure raised by code outside the repository (the API client,
  the HTTP client, a logger, an embedding model).
\<close>

datatype py_error =
    ValueError string "pyval option"
  | RuntimeError string "pyval option"
  | KeyError pyval
  | IndexError
  | TypeError string
  | AttributeError string
  | StopIteration
  | External string

section \<open>Prompt styles: \<open>model_style/alvic.py\<close>\<close>

text \<open>
  The two module-level templates are format strings; \<open>str.format\<close> substitutes the
  named fields and does not look inside the substituted text, so each template is a
  function of the values of its fields.
\<close>

definition ALPACA_PROMPT_TMPL :: "string \<Rightarrow> string \<Rightarrow> string" where
  "ALPACA_PROMPT_TMPL instru_marker instru_inputs =
     instru_marker @ instru_inputs @ ''\<newline>\<newline>### Response:\<newline>''"

definition VICUNA_PROMPT_TMPL :: "string \<Rightarrow> string" where
  "VICUNA_PROMPT_TMPL query =
     ''### USER:\<newline>\<newline>'' @ query @ ''\<newline>\<newline>### ASSISTANT:\<newline>''"

text \<open>
  \<open>make_prompt(msg, inputs='', sub=sub_style.ALPACA)\<close>. The selector is any Python
  value: a member of an \<open>Enum\<close> is equal only to itself, so the membership test and the
  comparisons of the source are equalities on \<open>pyval\<close>. An empty string is falsy.
\<close>

definition make_prompt :: "string \<Rightarrow> string \<Rightarrow> pyval \<Rightarrow> py_error + string" where
  "make_prompt msg inputs sub =
     (if sub = PEnum ALPACA \<or> sub = PEnum ALPACA_INSTRUCT then
        (let cr = ''\<newline>'';
             instru_inputs =
               msg @ ''\<newline>'' @ (if inputs \<noteq> [] then ''### Inputs:'' @ cr @ inputs else [])
                 @ ''\<newline>'';
             instru_marker =
               (if sub = PEnum ALPACA_INSTRUCT then ''### Instruction:\<newline>\<newline>'' else [])
         in Inr (ALPACA_PROMPT_TMPL instru_marker instru_inputs))
      else if sub = PEnum VICUNA then Inr (VICUNA_PROMPT_TMPL msg)
      else Inl (ValueError ''Prompt substyle should be Alpaca or Vicuna, not '' (Some sub)))"

section \<open>Python primitives used by the wrappers\<close>

text \<open>Truth value of an object, as \<open>not x\<close> and \<open>x or y\<close> test it.\<close>

fun truthy :: "pyval \<Rightarrow> bool" where
  "truthy PNone = False"
| "truthy (PBool b) = b"
| "truthy (PInt i) = (i \<noteq> 0)"
| "truthy (PStr s) = (s \<noteq> [])"
| "truthy (PList xs) = (xs \<noteq> [])"
| "truthy (PDict d) = (d \<noteq> [])"
| "truthy (PEnum m) = True"

text \<open>\<open>len(x)\<close>.\<close>

fun py_len :: "pyval \<Rightarrow> py_error + nat" where
  "py_len (PStr s) = Inr (length s)"
| "py_len (PList xs) = Inr (length xs)"
| "py_len (PDict d) = Inr (length d)"
| "py_len v = Inl (TypeError ''object has no len()'')"

text \<open>\<open>x[k]\<close> for a string key \<open>k\<close>: only a dictionary can be subscripted by a string.\<close>

fun getitem_key :: "pyval \<Rightarrow> string \<Rightarrow> py_error + pyval" where
  "getitem_key (PDict d) k =
     (case map_of d k of None \<Rightarrow> Inl (KeyError (PStr k)) | Some v \<Rightarrow> Inr v)"
| "getitem_key (PList xs) k = Inl (TypeError ''list indices must be integers or slices, not str'')"
| "getitem_key (PStr s) k = Inl (TypeError ''string indices must be integers'')"
| "getitem_key v k = Inl (TypeError ''object is not subscriptable'')"

text \<open>
  \<open>x[0]\<close>: the first element of a sequence, \<open>IndexError\<close> on an empty one; a dictionary
  (whose keys are strings) has no key \<open>0\<close>.
\<close>

fun getitem_0 :: "pyval \<Rightarrow> py_error + pyval" where
  "getitem_0 (PList xs) = (case xs of [] \<Rightarrow> Inl IndexError | x # rest \<Rightarrow> Inr x)"
| "getitem_0 (PStr s) = (case s of [] \<Rightarrow> Inl IndexError | c # rest \<Rightarrow> Inr (PStr [c]))"
| "getitem_0 (PDict d) = Inl (KeyError (PInt 0))"
| "getitem_0 v = Inl (TypeError ''object is not subscriptable'')"

text \<open>\<open>iter(x)\<close>, as the list of the items it will yield.\<close>

fun py_iter :: "pyval \<Rightarrow> py_error + pyval list" where
  "py_iter (PList xs) = Inr xs"
| "py_iter (PDict d) = Inr (map (\<lambda>kv. PStr (fst kv)) d)"
| "py_iter (PStr s) = Inr (map (\<lambda>c. PStr [c]) s)"
| "py_iter v = Inl (TypeError ''object is not iterable'')"

text \<open>\<open>x.get(k)\<close> and \<open>x[k] = v\<close> on a dictionary.\<close>

fun py_get :: "pyval \<Rightarrow> string \<Rightarrow> py_error + pyval" where
  "py_get (PDict d) k = Inr (case map_of d k of None \<Rightarrow> PNone | Some v \<Rightarrow> v)"
| "py_get v k = Inl (AttributeError ''object has no attribute get'')"

fun py_setitem :: "pyval \<Rightarrow> string \<Rightarrow> pyval \<Rightarrow> py_error + pyval" where
  "py_setitem (PDict d) k v = Inr (PDict (AList.update k v d))"
| "py_setitem x k v = Inl (TypeError ''object does not support item assignment'')"

text \<open>
  \<open>{**a, **b}\<close>: the entries of \<open>a\<close>, each key of \<open>b\<close> stored over them in turn.
\<close>

definition dict_merge :: "pydict \<Rightarrow> pydict \<Rightarrow> pydict" where
  "dict_merge a b = fold (\<lambda>kv d. AList.update (fst kv) (snd kv) d) b a"

text \<open>
  A call \<open>f(k1=v1, ..., **d1, **d2)\<close>: Python collects the keyword groups and raises
  \<open>TypeError\<close> when a keyword is given twice; otherwise the callable receives them all.
\<close>

definition call_kw :: "(pydict \<Rightarrow> py_error + pyval) \<Rightarrow> pydict list \<Rightarrow> py_error + pyval" where
  "call_kw f groups =
     (let kws = concat groups
      in if distinct (map fst kws) then f kws
         else Inl (TypeError ''got multiple values for keyword argument''))"

section \<open>LLM wrappers: \<open>llm_wrapper.py\<close>\<close>

text \<open>
  The instance attributes of \<open>openai_api\<close> (and of its subclass \<open>openai_chat_api\<close>).
  The module \<open>openai\<close> keeps its configuration in module attributes; that global
  state is a dictionary passed along with the wrapper.
\<close>

record openai_api =
  model :: pyval
  original_model :: pyval
  parameters :: pydict
  api_key :: string
  api_base :: string

type_synonym openai_globals = pydict

text \<open>
  What lies outside the repository: \<open>httpx\<close> (absent when its import fails, otherwise
  the decoded JSON body of a GET on a URL), the \<open>debug\<close> method of a logger found in
  the parameter bag (called with a message formatted from the API base and the model),
  and the two default API functions of the \<open>openai\<close> module. An API function sees the
  global configuration in force and its keyword arguments.
\<close>

type_synonym api_function = "openai_globals \<Rightarrow> pydict \<Rightarrow> py_error + pyval"

record environment =
  httpx_get_json :: "(string \<Rightarrow> py_error + pyval) option"
  logger_debug :: "pyval \<Rightarrow> string \<Rightarrow> pyval \<Rightarrow> py_error option"
  Completion_create :: api_function
  ChatCompletion_create :: api_function

definition OPENAI_GLOBALS :: "string list" where
  "OPENAI_GLOBALS =
     [''api_key'', ''api_key_path'', ''api_base'', ''organization'', ''api_type'',
      ''api_version'', ''proxy'', ''app_info'', ''debug'', ''log'']"

text \<open>
  \<open>available_models\<close>: \<open>next(iter((i['id'] for i in resp['data'])))\<close> takes the first
  item the generator yields, and raises \<open>StopIteration\<close> when there is none.
\<close>

definition available_models :: "environment \<Rightarrow> openai_api \<Rightarrow> py_error + pyval" where
  "available_models env self =
     (case httpx_get_json env of
        None \<Rightarrow> Inl (RuntimeError ''Needs httpx installed. Try pip install httpx'' None)
      | Some get_json \<Rightarrow>
          (case get_json (api_base self @ ''/models'') of
             Inl e \<Rightarrow> Inl e
           | Inr resp \<Rightarrow>
               (case getitem_key resp ''data'' of
                  Inl e \<Rightarrow> Inl e
                | Inr data \<Rightarrow>
                    (case py_iter data of
                       Inl e \<Rightarrow> Inl e
                     | Inr items \<Rightarrow>
                         (case items of
                            [] \<Rightarrow> Inl StopIteration
                          | i # rest \<Rightarrow> getitem_key i ''id'')))))"

definition hosted_model :: "environment \<Rightarrow> openai_api \<Rightarrow> py_error + pyval" where
  "hosted_model env self =
     (case available_models env self of
        Inl e \<Rightarrow> Inl e
      | Inr models \<Rightarrow>
          (case py_len models of
             Inl e \<Rightarrow> Inl e
           | Inr n \<Rightarrow> if n > 1 then Inr models else Inr (model self)))"

text \<open>
  \<open>_claim_global_context\<close>: copies the recognised settings of the parameter bag, then
  the model, key and base, onto the module; when the user pinned no model it asks the
  endpoint again and stores the answer in \<open>self.model\<close>.
\<close>

definition claim_global_context ::
  "environment \<Rightarrow> openai_api \<times> openai_globals \<Rightarrow> (py_error + unit) \<times> openai_api \<times> openai_globals"
where
  "claim_global_context env st =
     (let self = fst st;
          g1 = fold (\<lambda>k g. case map_of (parameters self) k of
                               Some v \<Rightarrow> AList.update k v g
                             | None \<Rightarrow> g) OPENAI_GLOBALS (snd st);
          g2 = AList.update ''model'' (model self) g1;
          g3 = AList.update ''api_key'' (PStr (api_key self)) g2;
          g4 = AList.update ''api_base'' (PStr (api_base self)) g3
      in if \<not> truthy (original_model self) then
           (case hosted_model env self of
              Inl e \<Rightarrow> (Inl e, self, g4)
            | Inr m \<Rightarrow>
                (let self' = self\<lparr>model := m\<rparr>
                 in case map_of (parameters self') ''logger'' of
                      None \<Rightarrow> (Inr (), self', g4)
                    | Some lg \<Rightarrow>
                        (case logger_debug env lg (api_base self') (model self') of
                           Some e \<Rightarrow> (Inl e, self', g4)
                         | None \<Rightarrow> (Inr (), self', g4))))
         else (Inr (), self, g4))"

text \<open>\<open>api_func = api_func or <default>\<close>: the override when one is passed.\<close>

definition api_func_or :: "api_function option \<Rightarrow> api_function \<Rightarrow> api_function" where
  "api_func_or api_func dflt = (case api_func of Some h \<Rightarrow> h | None \<Rightarrow> dflt)"

text \<open>\<open>openai_api.__call__(self, prompt, api_func=None, **kwargs)\<close>.\<close>

definition openai_api_call ::
  "environment \<Rightarrow> openai_api \<times> openai_globals \<Rightarrow> pyval \<Rightarrow> api_function option \<Rightarrow> pydict
     \<Rightarrow> (py_error + pyval) \<times> openai_api \<times> openai_globals"
where
  "openai_api_call env st prompt api_func kwargs =
     (let f = api_func_or api_func (Completion_create env);
          claimed = claim_global_context env st;
          self = fst (snd claimed);
          g = snd (snd claimed)
      in case fst claimed of
           Inl e \<Rightarrow> (Inl e, self, g)
         | Inr u \<Rightarrow>
             (let merged_kwargs = dict_merge (parameters self) kwargs
              in case call_kw (f g)
                        [[(''model'', model self), (''prompt'', prompt)], merged_kwargs] of
                   Inl e \<Rightarrow> (Inl e, self, g)
                 | Inr result \<Rightarrow>
                     (case py_get result ''model'' of
                        Inl e \<Rightarrow> (Inl e, self, g)
                      | Inr m \<Rightarrow>
                          if m = PStr ''HOSTED_MODEL''
                          then (py_setitem result ''model'' (model self), self, g)
                          else (Inr result, self, g))))"

text \<open>\<open>openai_chat_api.__call__(self, messages, api_func=None, **kwargs)\<close>.\<close>

definition openai_chat_api_call ::
  "environment \<Rightarrow> openai_api \<times> openai_globals \<Rightarrow> pyval \<Rightarrow> api_function option \<Rightarrow> pydict
     \<Rightarrow> (py_error + pyval) \<times> openai_api \<times> openai_globals"
where
  "openai_chat_api_call env st messages api_func kwargs =
     (let f = api_func_or api_func (ChatCompletion_create env);
          claimed = claim_global_context env st;
          self = fst (snd claimed);
          g = snd (snd claimed)
      in case fst claimed of
           Inl e \<Rightarrow> (Inl e, self, g)
         | Inr u \<Rightarrow>
             (call_kw (f g)
                [[(''model'', model self), (''messages'', messages)], parameters self, kwargs],
              self, g))"

text \<open>
  The two extraction helpers: the subscript chain runs inside \<open>try\<close>, and only a
  \<open>KeyError\<close> is turned into the \<open>RuntimeError\<close> that shows the response.
\<close>

definition first_choice_text :: "pyval \<Rightarrow> py_error + pyval" where
  "first_choice_text response =
     (let r = (case getitem_key response ''choices'' of
                 Inl e \<Rightarrow> Inl e
               | Inr choices \<Rightarrow>
                   (case getitem_0 choices of
                      Inl e \<Rightarrow> Inl e
                    | Inr choice \<Rightarrow> getitem_key choice ''text''))
      in case r of
           Inl (KeyError k) \<Rightarrow>
             Inl (RuntimeError
               ''Response does not appear to be an OpenAI API completion structure, as expected:\<newline>''
               (Some response))
         | other \<Rightarrow> other)"

definition first_choice_message :: "pyval \<Rightarrow> py_error + pyval" where
  "first_choice_message response =
     (let r = (case getitem_key response ''choices'' of
                 Inl e \<Rightarrow> Inl e
               | Inr choices \<Rightarrow>
                   (case getitem_0 choices of
                      Inl e \<Rightarrow> Inl e
                    | Inr choice \<Rightarrow>
                        (case getitem_key choice ''message'' of
                           Inl e \<Rightarrow> Inl e
                         | Inr message \<Rightarrow> getitem_key message ''content'')))
      in case r of
           Inl (KeyError k) \<Rightarrow>
             Inl (RuntimeError
               ''Response does not appear to be an OpenAI API chat-style completion structure, as expected:\<newline>''
               (Some response))
         | other \<Rightarrow> other)"

text \<open>\<open>prompt_to_chat(prompt)\<close>: the one-message chat history.\<close>

definition prompt_to_chat :: "string \<Rightarrow> pyval" where
  "prompt_to_chat prompt = PList [PDict [(''role'', PStr ''user''), (''content'', PStr prompt)]]"

section \<open>Vector store helper: \<open>embedding/pgvector.py\<close>\<close>

text \<open>
  A table name is a Python \<open>str\<close>, a sequence of Unicode code points. \<open>str.isalnum\<close>
  is true of a non-empty string all of whose characters are alphanumeric. Below 128 the
  alphanumeric code points are the ASCII digits and letters; the class of the others
  comes from the Unicode character database, which is a parameter here.
\<close>

type_synonym ustr = "nat list"

definition isalnum_cp :: "(nat \<Rightarrow> bool) \<Rightarrow> nat \<Rightarrow> bool" where
  "isalnum_cp unicode_alnum c =
     (if c < 128
      then (48 \<le> c \<and> c \<le> 57) \<or> (65 \<le> c \<and> c \<le> 90) \<or> (97 \<le> c \<and> c \<le> 122)
      else unicode_alnum c)"

definition isalnum :: "(nat \<Rightarrow> bool) \<Rightarrow> ustr \<Rightarrow> bool" where
  "isalnum unicode_alnum s = (s \<noteq> [] \<and> list_all (isalnum_cp unicode_alnum) s)"

text \<open>\<open>s.replace(old, new)\<close> for a pattern \<open>old\<close> of one character.\<close>

definition replace_char :: "nat \<Rightarrow> ustr \<Rightarrow> ustr \<Rightarrow> ustr" where
  "replace_char old new s = concat (map (\<lambda>c. if c = old then new else [c]) s)"

definition underscore :: nat where
  "underscore = 95"

text \<open>
  The embedding model handed to the constructor: \<open>None\<close>, or an object with the name of
  its class and the outcome of \<open>len(model.encode(''))\<close>.
\<close>

datatype py_embedding = NoModel | ModelObject string "py_error + nat"

fun class_name :: "py_embedding \<Rightarrow> string" where
  "class_name NoModel = ''NoneType''"
| "class_name (ModelObject cls enc) = cls"

record 'c PGVectorHelper =
  embedding_model :: py_embedding
  embed_dimension :: nat
  conn :: 'c
  table_name :: ustr

text \<open>
  \<open>PGVectorHelper.__init__(self, embedding_model, table_name, apg_conn)\<close>; the module flag
  \<open>PREREQS_AVAILABLE\<close> records whether the imports of the module succeeded.
\<close>

definition PGVectorHelper_init ::
  "bool \<Rightarrow> (nat \<Rightarrow> bool) \<Rightarrow> py_embedding \<Rightarrow> ustr \<Rightarrow> 'c \<Rightarrow> py_error + 'c PGVectorHelper"
where
  "PGVectorHelper_init PREREQS_AVAILABLE unicode_alnum emb name apg_conn =
     (if \<not> PREREQS_AVAILABLE then
        Inl (RuntimeError ''pgvector not installed, you can run `pip install pgvector asyncpg`'' None)
      else if \<not> isalnum unicode_alnum (replace_char underscore [] name) then
        Inl (ValueError ''table_name must be alphanumeric, with underscore also allowed'' None)
      else if class_name emb = ''SentenceTransformer'' \<and> \<not> truthy PNone then
        (case emb of
           ModelObject cls enc \<Rightarrow>
             (case enc of
                Inl e \<Rightarrow> Inl e
              | Inr n \<Rightarrow>
                  Inr \<lparr>embedding_model = emb, embed_dimension = n,
                       conn = apg_conn, table_name = name\<rparr>)
         | NoModel \<Rightarrow> Inl (AttributeError ''NoneType object has no attribute encode''))
      else if emb = NoModel then
        Inr \<lparr>embedding_model = NoModel, embed_dimension = 0,
             conn = apg_conn, table_name = name\<rparr>
      else
        Inl (ValueError ''embedding_model must be a SentenceTransformer object or None'' None))"

section \<open>Concrete endpoints, wrappers and names\<close>

text \<open>
  Stubs standing for the outside world when the model is run on concrete inputs: an
  endpoint whose \<open>/models\<close> path lists two models, an API function that refuses the
  connection, one that answers with the sentinel model name, one that answers with
  the keyword arguments it received, and a logger that accepts every message.
\<close>

definition stub_get_json :: "string \<Rightarrow> py_error + pyval" where
  "stub_get_json url =
     Inr (PDict [(''data'', PList [PDict [(''id'', PStr ''model-b'')],
                                   PDict [(''id'', PStr ''model-c'')]])])"

definition failing_api :: api_function where
  "failing_api gl kws = Inl (External ''connection refused'')"

definition hosted_api :: api_function where
  "hosted_api gl kws =
     Inr (PDict [(''model'', PStr ''HOSTED_MODEL''), (''choices'', PList [])])"

definition echo_api :: api_function where
  "echo_api gl kws = Inr (PDict kws)"

text \<open>
  An API function that refuses one request only, the one asking for 200 tokens, and
  answers every other request with the keyword arguments it received.
\<close>

definition picky_api :: api_function where
  "picky_api gl kws =
     (if map_of kws ''max_tokens'' = Some (PInt 200) then Inl (External ''rate limited'')
      else Inr (PDict kws))"

definition quiet_logger :: "pyval \<Rightarrow> string \<Rightarrow> pyval \<Rightarrow> py_error option" where
  "quiet_logger lg base m = None"

definition stub_env :: environment where
  "stub_env =
     \<lparr>httpx_get_json = Some stub_get_json, logger_debug = quiet_logger,
      Completion_create = failing_api, ChatCompletion_create = failing_api\<rparr>"

text \<open>
  A wrapper built with an explicit model, one built without (its model was discovered
  when it was built), and one holding a stored parameter.
\<close>

definition pinned_wrapper :: openai_api where
  "pinned_wrapper =
     \<lparr>model = PStr ''gpt-x'', original_model = PStr ''gpt-x'', parameters = [],
      api_key = ''sk-test'', api_base = ''http://localhost:8000/v1''\<rparr>"

definition unpinned_wrapper :: openai_api where
  "unpinned_wrapper =
     \<lparr>model = PStr ''model-a'', original_model = PNone, parameters = [],
      api_key = ''sk-test'', api_base = ''http://localhost:8000/v1''\<rparr>"

definition tuned_wrapper :: openai_api where
  "tuned_wrapper =
     \<lparr>model = PStr ''gpt-x'', original_model = PStr ''gpt-x'',
      parameters = [(''max_tokens'', PInt 100)],
      api_key = ''sk-test'', api_base = ''http://localhost:8000/v1''\<rparr>"

text \<open>The classification in which no code point above 127 is alphanumeric.\<close>

definition ascii_only :: "nat \<Rightarrow> bool" where
  "ascii_only c = False"

text \<open>
  The fields of a wrapper that no call assigns: \<open>kept_fields w w'\<close> says they agree.
\<close>

definition kept_fields :: "openai_api \<Rightarrow> openai_api \<Rightarrow> bool" where
  "kept_fields w w' =
     (original_model w' = original_model w \<and> parameters w' = parameters w \<and>
      api_key w' = api_key w \<and> api_base w' = api_base w)"

section \<open>Facts about the primitives\<close>

lemma replace_char_drop: "replace_char old [] s = filter (\<lambda>c. c \<noteq> old) s"
  by (induction s) (simp_all add: replace_char_def)

lemma underscore_not_alnum: "\<not> isalnum_cp u underscore"
  by (simp add: isalnum_cp_def underscore_def)

lemma table_name_check:
  "isalnum u (replace_char underscore [] name) \<longleftrightarrow>
     (\<forall>c\<in>set name. isalnum_cp u c \<or> c = underscore) \<and> (\<exists>c\<in>set name. c \<noteq> underscore)"
  by (auto simp: isalnum_def replace_char_drop list_all_iff filter_empty_conv)

lemma map_of_dict_merge:
  assumes "distinct (map fst b)"
  shows "map_of (dict_merge a b) k = (case map_of b k of Some v \<Rightarrow> Some v | None \<Rightarrow> map_of a k)"
  using assms unfolding dict_merge_def
proof (induction b arbitrary: a)
  case Nil
  show ?case by simp
next
  case (Cons kv rest)
  obtain k0 v0 where kv: "kv = (k0, v0)"
    by (cases kv)
  from Cons.prems kv have fresh: "map_of rest k0 = None"
    by (simp add: map_of_eq_None_iff)
  from Cons.prems have "distinct (map fst rest)"
    by simp
  with Cons.IH [of "AList.update k0 v0 a"] kv fresh show ?case
    by (auto simp: update_conv' split: option.splits)
qed

lemma openai_api_call_merges:
  assumes "fst (claim_global_context env (w, g)) = Inr ()"
    and "distinct (''model'' # ''prompt'' # map fst (dict_merge (parameters w) kwargs))"
  shows "fst (openai_api_call env (w, g) prompt (Some echo_api) kwargs)
           = Inr (PDict ((''model'', model (fst (snd (claim_global_context env (w, g)))))
                         # (''prompt'', prompt) # dict_merge (parameters w) kwargs))"
proof -
  have "parameters (fst (snd (claim_global_context env (w, g)))) = parameters w"
    by (simp add: claim_global_context_def Let_def split: sum.splits option.splits)
  with assms show ?thesis
    by (simp add: openai_api_call_def Let_def call_kw_def api_func_or_def echo_api_def)
qed

lemma openai_api_call_rewrites:
  assumes "fst (claim_global_context env (w, g)) = Inr ()"
    and "call_kw (api_func_or api_func (Completion_create env)
                    (snd (snd (claim_global_context env (w, g)))))
           [[(''model'', model (fst (snd (claim_global_context env (w, g))))),
             (''prompt'', prompt)],
            dict_merge (parameters (fst (snd (claim_global_context env (w, g))))) kwargs]
         = Inr (PDict d)"
    and "map_of d ''model'' = Some (PStr ''HOSTED_MODEL'')"
  shows "fst (openai_api_call env (w, g) prompt api_func kwargs)
           = Inr (PDict (AList.update ''model''
                           (model (fst (snd (claim_global_context env (w, g))))) d))"
  using assms by (simp add: openai_api_call_def Let_def)

lemma first_choice_text_present:
  assumes "map_of d ''choices'' = Some (PList (PDict c # rest))"
    and "map_of c ''text'' = Some v"
  shows "first_choice_text (PDict d) = Inr v"
  using assms by (simp add: first_choice_text_def)

lemma first_choice_text_no_choices:
  assumes "map_of d ''choices'' = None"
  shows "first_choice_text (PDict d)
           = Inl (RuntimeError
               ''Response does not appear to be an OpenAI API completion structure, as expected:\<newline>''
               (Some (PDict d)))"
  using assms by (simp add: first_choice_text_def)

lemma first_choice_message_present:
  assumes "map_of d ''choices'' = Some (PList (PDict c # rest))"
    and "map_of c ''message'' = Some (PDict m)"
    and "map_of m ''content'' = Some v"
  shows "first_choice_message (PDict d) = Inr v"
  using assms by (simp add: first_choice_message_def)

lemma first_choice_empty:
  assumes "map_of d ''choices'' = Some (PList [])"
  shows "first_choice_text (PDict d) = Inl IndexError"
    and "first_choice_message (PDict d) = Inl IndexError"
  using assms by (simp_all add: first_choice_text_def first_choice_message_def)

lemma available_models_first:
  assumes "httpx_get_json env = Some get_json"
    and "get_json (api_base w @ ''/models'') = Inr (PDict r)"
    and "map_of r ''data'' = Some (PList (PDict i # rest))"
    and "map_of i ''id'' = Some v"
  shows "available_models env w = Inr v"
  using assms by (simp add: available_models_def)

lemma available_models_no_entry:
  assumes "httpx_get_json env = Some get_json"
    and "get_json (api_base w @ ''/models'') = Inr (PDict r)"
    and "map_of r ''data'' = Some (PList [])"
  shows "available_models env w = Inl StopIteration"
  using assms by (simp add: available_models_def)

lemma openai_chat_api_call_returns_raw:
  assumes "fst (claim_global_context env (w, g)) = Inr ()"
  shows "fst (openai_chat_api_call env (w, g) messages api_func kwargs)
           = call_kw (api_func_or api_func (ChatCompletion_create env)
                        (snd (snd (claim_global_context env (w, g)))))
               [[(''model'', model (fst (snd (claim_global_context env (w, g))))),
                 (''messages'', messages)],
                parameters (fst (snd (claim_global_context env (w, g)))), kwargs]"
  using assms by (simp add: openai_chat_api_call_def Let_def)

lemma openai_chat_api_call_collision:
  assumes "fst (claim_global_context env (w, g)) = Inr ()"
    and "k \<in> fst ` set (parameters w)" and "k \<in> fst ` set kwargs"
  shows "fst (openai_chat_api_call env (w, g) messages api_func kwargs)
           = Inl (TypeError ''got multiple values for keyword argument'')"
proof -
  have "parameters (fst (snd (claim_global_context env (w, g)))) = parameters w"
    by (simp add: claim_global_context_def Let_def split: sum.splits option.splits)
  with assms show ?thesis
    by (auto simp: openai_chat_api_call_def Let_def call_kw_def)
qed

lemma claim_kept_fields: "kept_fields w (fst (snd (claim_global_context env (w, g))))"
  by (simp add: claim_global_context_def kept_fields_def Let_def
           split: sum.splits option.splits)

lemma claim_pinned:
  "truthy (original_model w) \<Longrightarrow>
     fst (claim_global_context env (w, g)) = Inr () \<and>
     fst (snd (claim_global_context env (w, g))) = w"
  by (simp add: claim_global_context_def Let_def)

lemma claim_model:
  "model (fst (snd (claim_global_context env (w, g)))) = model w \<or>
   hosted_model env w = Inr (model (fst (snd (claim_global_context env (w, g)))))"
  by (simp add: claim_global_context_def Let_def split: sum.splits option.splits)

lemma openai_api_call_self:
  "fst (snd (openai_api_call env st prompt api_func kwargs))
     = fst (snd (claim_global_context env st))"
  by (simp add: openai_api_call_def Let_def split: sum.splits)

lemma openai_chat_api_call_self:
  "fst (snd (openai_chat_api_call env st messages api_func kwargs))
     = fst (snd (claim_global_context env st))"
  by (simp add: openai_chat_api_call_def Let_def split: sum.splits)

lemma call_kw_distinct:
  "distinct (map fst (concat groups)) \<Longrightarrow> call_kw f groups = f (concat groups)"
  by (simp add: call_kw_def Let_def)

lemma openai_api_call_propagates:
  assumes "claim_global_context env (w, g) = (Inr (), w', g')"
    and "call_kw (api_func_or api_func (Completion_create env) g')
           [[(''model'', model w'), (''prompt'', prompt)], dict_merge (parameters w') kwargs]
         = Inl e"
  shows "openai_api_call env (w, g) prompt api_func kwargs = (Inl e, w', g')"
  using assms by (simp add: openai_api_call_def Let_def)

lemma openai_chat_api_call_propagates:
  assumes "claim_global_context env (w, g) = (Inr (), w', g')"
    and "call_kw (api_func_or api_func (ChatCompletion_create env) g')
           [[(''model'', model w'), (''messages'', messages)], parameters w', kwargs]
         = Inl e"
  shows "openai_chat_api_call env (w, g) messages api_func kwargs = (Inl e, w', g')"
  using assms by (simp add: openai_chat_api_call_def Let_def)

lemma claim_failure_propagates:
  assumes "fst (claim_global_context env (w, g)) = Inl e"
  shows "fst (openai_api_call env (w, g) prompt api_func kwargs) = Inl e"
    and "fst (openai_chat_api_call env (w, g) messages api_func kwargs) = Inl e"
  using assms by (simp_all add: openai_api_call_def openai_chat_api_call_def Let_def)

section \<open>The claims\<close>

subsection \<open>Table names\<close>

text \<open>
  C1, as amended. With the client libraries available, a table name made of letters,
  digits and underscores that has at least one letter or digit passes the check of
  \<open>PGVectorHelper.__init__\<close> (underscores stripped, the rest alphanumeric), and the
  helper is built, without an embedding model or with a sentence transformer whose
  encoding has length \<open>n\<close>. A name holding any character that is neither a letter, a
  digit nor an underscore makes the constructor fail with the \<open>ValueError\<close> of the
  table-name check, whatever the embedding model.
\<close>

theorem table_name_validation:
  assumes "PREREQS_AVAILABLE"
  shows "((\<forall>c\<in>set name. isalnum_cp u c \<or> c = underscore) \<and> (\<exists>c\<in>set name. isalnum_cp u c)
            \<longrightarrow> isalnum u (replace_char underscore [] name)
                \<and> PGVectorHelper_init PREREQS_AVAILABLE u NoModel name apg_conn
                  = Inr \<lparr>embedding_model = NoModel, embed_dimension = 0,
                         conn = apg_conn, table_name = name\<rparr>
                \<and> PGVectorHelper_init PREREQS_AVAILABLE u
                      (ModelObject ''SentenceTransformer'' (Inr n)) name apg_conn
                  = Inr \<lparr>embedding_model = ModelObject ''SentenceTransformer'' (Inr n),
                         embed_dimension = n, conn = apg_conn, table_name = name\<rparr>)
       \<and> ((\<exists>c\<in>set name. \<not> isalnum_cp u c \<and> c \<noteq> underscore)
            \<longrightarrow> PGVectorHelper_init PREREQS_AVAILABLE u emb name apg_conn
                  = Inl (ValueError ''table_name must be alphanumeric, with underscore also allowed'' None))"
proof (intro conjI impI)
  assume ok: "(\<forall>c\<in>set name. isalnum_cp u c \<or> c = underscore) \<and> (\<exists>c\<in>set name. isalnum_cp u c)"
  then obtain c where c: "c \<in> set name" "isalnum_cp u c"
    by auto
  from c(2) have "c \<noteq> underscore"
    using underscore_not_alnum [of u] by auto
  with c(1) have "\<exists>c\<in>set name. c \<noteq> underscore" ..
  with ok show valid: "isalnum u (replace_char underscore [] name)"
    by (simp add: table_name_check)
  show "PGVectorHelper_init PREREQS_AVAILABLE u NoModel name apg_conn
          = Inr \<lparr>embedding_model = NoModel, embed_dimension = 0, conn = apg_conn, table_name = name\<rparr>"
    using assms valid by (simp add: PGVectorHelper_init_def)
  show "PGVectorHelper_init PREREQS_AVAILABLE u (ModelObject ''SentenceTransformer'' (Inr n)) name apg_conn
          = Inr \<lparr>embedding_model = ModelObject ''SentenceTransformer'' (Inr n),
                 embed_dimension = n, conn = apg_conn, table_name = name\<rparr>"
    using assms valid by (simp add: PGVectorHelper_init_def)
next
  assume "\<exists>c\<in>set name. \<not> isalnum_cp u c \<and> c \<noteq> underscore"
  then have "\<not> isalnum u (replace_char underscore [] name)"
    by (auto simp: table_name_check)
  then show "PGVectorHelper_init PREREQS_AVAILABLE u emb name apg_conn
          = Inl (ValueError ''table_name must be alphanumeric, with underscore also allowed'' None)"
    using assms by (simp add: PGVectorHelper_init_def)
qed

theorem table_name_validation_witness:
  "isalnum_cp ascii_only 116 \<and> 95 = underscore \<and> isalnum_cp ascii_only 49
   \<and> isalnum ascii_only (replace_char underscore [] [116, 95, 49])
   \<and> PGVectorHelper_init True ascii_only NoModel [116, 95, 49] ()
       = Inr \<lparr>embedding_model = NoModel, embed_dimension = 0, conn = (),
              table_name = [116, 95, 49]\<rparr>
   \<and> PGVectorHelper_init True ascii_only (ModelObject ''SentenceTransformer'' (Inr 384))
         [116, 95, 49] ()
       = Inr \<lparr>embedding_model = ModelObject ''SentenceTransformer'' (Inr 384),
              embed_dimension = 384, conn = (), table_name = [116, 95, 49]\<rparr>
   \<and> \<not> isalnum_cp ascii_only 32 \<and> 32 \<noteq> underscore
   \<and> PGVectorHelper_init True ascii_only NoModel [97, 32, 98] ()
       = Inl (ValueError ''table_name must be alphanumeric, with underscore also allowed'' None)"
  using table_name_validation [where PREREQS_AVAILABLE = True and name = "[116, 95, 49]"
          and u = ascii_only and n = 384 and apg_conn = "()"]
        table_name_validation [where PREREQS_AVAILABLE = True and name = "[97, 32, 98]"
          and u = ascii_only and emb = NoModel and apg_conn = "()"]
  by (simp add: isalnum_cp_def underscore_def)

text \<open>
  The claim as first stated fails on the name \<open>_\<close>: it consists of permitted
  characters only, and the constructor rejects it, since nothing is left once the
  underscore is stripped and \<open>isalnum\<close> is false of the empty string. And without the
  client libraries a name with a space is refused with \<open>RuntimeError\<close>, ahead of the
  table-name check.
\<close>

theorem table_name_underscore_counterexample:
  "PGVectorHelper_init True ascii_only NoModel [95] ()
     = Inl (ValueError ''table_name must be alphanumeric, with underscore also allowed'' None)
   \<and> PGVectorHelper_init False ascii_only NoModel [97, 32, 98] ()
     = Inl (RuntimeError ''pgvector not installed, you can run `pip install pgvector asyncpg`'' None)"
  by (simp add: PGVectorHelper_init_def isalnum_def replace_char_def underscore_def)

subsection \<open>Prompt templates\<close>

text \<open>
  C2, as amended. With empty auxiliary input and style \<open>ALPACA\<close>, \<open>make_prompt\<close>
  fills \<open>ALPACA_PROMPT_TMPL\<close> with an empty marker and the message followed by two line
  breaks: the result is the message, four line breaks, and the line \<open>### Response:\<close>,
  with no \<open>### Inputs:\<close> section. For \<open>Knock knock!\<close> that is the string shown, with
  four line breaks between the message and \<open>### Response:\<close>.
\<close>

theorem make_prompt_alpaca_plain:
  "make_prompt msg [] (PEnum ALPACA) = Inr (ALPACA_PROMPT_TMPL [] (msg @ ''\<newline>\<newline>''))
   \<and> make_prompt msg [] (PEnum ALPACA) = Inr (msg @ ''\<newline>\<newline>\<newline>\<newline>### Response:\<newline>'')
   \<and> make_prompt ''Knock knock!'' [] (PEnum ALPACA)
       = Inr ''Knock knock!\<newline>\<newline>\<newline>\<newline>### Response:\<newline>''"
  by (simp add: make_prompt_def ALPACA_PROMPT_TMPL_def)

text \<open>The string of the claim as first stated has three line breaks there.\<close>

theorem make_prompt_alpaca_knock_counterexample:
  "make_prompt ''Knock knock!'' [] (PEnum ALPACA)
     \<noteq> Inr ''Knock knock!\<newline>\<newline>\<newline>### Response:\<newline>''"
  by (simp add: make_prompt_def ALPACA_PROMPT_TMPL_def)

text \<open>
  C3, as amended. With style \<open>VICUNA\<close>, \<open>make_prompt\<close> renders \<open>VICUNA_PROMPT_TMPL\<close>
  with the message in place of \<open>{query}\<close>, for every message and auxiliary input; for
  \<open>Knock knock!\<close> the message follows the blank line directly, with no space before it.
\<close>

theorem make_prompt_vicuna_template:
  "make_prompt msg inputs (PEnum VICUNA) = Inr (VICUNA_PROMPT_TMPL msg)
   \<and> make_prompt msg inputs (PEnum VICUNA)
       = Inr (''### USER:\<newline>\<newline>'' @ msg @ ''\<newline>\<newline>### ASSISTANT:\<newline>'')
   \<and> make_prompt ''Knock knock!'' [] (PEnum VICUNA)
       = Inr ''### USER:\<newline>\<newline>Knock knock!\<newline>\<newline>### ASSISTANT:\<newline>''"
  by (simp add: make_prompt_def VICUNA_PROMPT_TMPL_def)

text \<open>The string of the claim as first stated has a space before the message.\<close>

theorem make_prompt_vicuna_knock_counterexample:
  "make_prompt ''Knock knock!'' [] (PEnum VICUNA)
     \<noteq> Inr ''### USER:\<newline>\<newline> Knock knock!\<newline>\<newline>### ASSISTANT:\<newline>''"
  by (simp add: make_prompt_def VICUNA_PROMPT_TMPL_def)

text \<open>
  C4. A selector that is none of the three members of \<open>sub_style\<close> makes \<open>make_prompt\<close>
  fail with a \<open>ValueError\<close> that carries the received value; with one of the three
  members it does not fail.
\<close>

theorem make_prompt_selector:
  "(sub \<notin> {PEnum ALPACA, PEnum ALPACA_INSTRUCT, PEnum VICUNA}
      \<longrightarrow> make_prompt msg inputs sub
            = Inl (ValueError ''Prompt substyle should be Alpaca or Vicuna, not '' (Some sub)))
   \<and> (sub \<in> {PEnum ALPACA, PEnum ALPACA_INSTRUCT, PEnum VICUNA}
      \<longrightarrow> \<not> isl (make_prompt msg inputs sub))"
  by (auto simp: make_prompt_def Let_def)

theorem make_prompt_selector_witness:
  "make_prompt ''Knock knock!'' ''hint'' (PInt 1)
     = Inl (ValueError ''Prompt substyle should be Alpaca or Vicuna, not '' (Some (PInt 1)))
   \<and> \<not> isl (make_prompt ''Knock knock!'' ''hint'' (PEnum ALPACA_INSTRUCT))"
  using make_prompt_selector [of "PInt 1" "''Knock knock!''" "''hint''"]
        make_prompt_selector [of "PEnum ALPACA_INSTRUCT" "''Knock knock!''" "''hint''"]
  by simp

text \<open>
  C10. With style \<open>VICUNA\<close> the auxiliary input has no effect on the result of
  \<open>make_prompt\<close>.
\<close>

theorem make_prompt_vicuna_ignores_inputs:
  "make_prompt msg inputs1 (PEnum VICUNA) = make_prompt msg inputs2 (PEnum VICUNA)"
  by (simp add: make_prompt_def)

subsection \<open>Calls through the wrappers\<close>

text \<open>
  C5. The completion wrapper rewrites the sentinel \<open>HOSTED_MODEL\<close> in the response
  (\<open>openai_api_call_rewrites\<close>); the chat wrapper returns what the API function
  returned (\<open>openai_chat_api_call_returns_raw\<close>). On a wrapper whose model is
  \<open>gpt-x\<close> and an API function answering with the sentinel, the chat call returns the
  sentinel and the completion call returns \<open>gpt-x\<close>.
\<close>

theorem chat_sentinel_not_rewritten:
  "fst (openai_chat_api_call stub_env (pinned_wrapper, []) (prompt_to_chat ''Knock knock!'')
          (Some hosted_api) [])
     = Inr (PDict [(''model'', PStr ''HOSTED_MODEL''), (''choices'', PList [])])
   \<and> fst (openai_api_call stub_env (pinned_wrapper, []) (PStr ''Knock knock!'')
          (Some hosted_api) [])
     = Inr (PDict [(''model'', PStr ''gpt-x''), (''choices'', PList [])])"
  by code_simp

text \<open>
  C6. The completion wrapper merges the stored parameters with the call-time ones, the
  latter winning (\<open>openai_api_call_merges\<close>, \<open>map_of_dict_merge\<close>); the chat wrapper
  passes both dictionaries to the call, which raises \<open>TypeError\<close> on a keyword given
  twice (\<open>openai_chat_api_call_collision\<close>). With \<open>max_tokens\<close> stored as 100 and
  passed as 200, the chat call fails and the completion call issues 200.
\<close>

theorem chat_keyword_collision:
  "fst (openai_chat_api_call stub_env (tuned_wrapper, []) (prompt_to_chat ''Knock knock!'')
          (Some echo_api) [(''max_tokens'', PInt 200)])
     = Inl (TypeError ''got multiple values for keyword argument'')
   \<and> fst (openai_api_call stub_env (tuned_wrapper, []) (PStr ''Knock knock!'')
          (Some echo_api) [(''max_tokens'', PInt 200)])
     = Inr (PDict [(''model'', PStr ''gpt-x''), (''prompt'', PStr ''Knock knock!''),
                   (''max_tokens'', PInt 200)])"
  by code_simp

text \<open>
  C7. On a response whose \<open>choices\<close> list is empty, both extraction helpers raise
  \<open>IndexError\<close>, which their \<open>except KeyError\<close> does not catch; a missing key gives
  the \<open>RuntimeError\<close> showing the response (\<open>first_choice_text_no_choices\<close>), and a
  present path its value (\<open>first_choice_text_present\<close>,
  \<open>first_choice_message_present\<close>).
\<close>

theorem first_choice_empty_choices:
  "first_choice_text (PDict [(''choices'', PList [])]) = Inl IndexError
   \<and> first_choice_message (PDict [(''choices'', PList [])]) = Inl IndexError"
  by (simp add: first_choice_text_def first_choice_message_def)

text \<open>
  C8. On an endpoint listing the models \<open>model-b\<close> and \<open>model-c\<close>,
  \<open>available_models\<close> returns the string \<open>model-b\<close>, the identifier of the first
  entry, and not the sequence of both (\<open>available_models_first\<close> in general).
\<close>

theorem available_models_first_only:
  "available_models stub_env pinned_wrapper = Inr (PStr ''model-b'')"
  by (simp add: available_models_def stub_env_def stub_get_json_def)

text \<open>
  C9, as amended. Take any invocation of either wrapper in which the context was
  claimed, leaving the wrapper \<open>w'\<close> and the globals \<open>g'\<close>, and the API call of this
  invocation then fails with \<open>e\<close> (raised by the API function on this request, or by
  the call itself). The invocation fails with \<open>e\<close> and leaves the wrapper \<open>w'\<close>, whose
  fields \<open>original_model\<close>, \<open>parameters\<close>, \<open>api_key\<close> and \<open>api_base\<close> are those of
  the wrapper \<open>w\<close> before the call; \<open>w'\<close> is \<open>w\<close> itself when \<open>w\<close> was built with an
  explicit model; otherwise its \<open>model\<close> is that of \<open>w\<close> or is the model that
  \<open>hosted_model\<close> discovered during this call.
\<close>

theorem failed_call_wrapper_state:
  assumes "claim_global_context env (w, g) = (Inr (), w', g')"
  shows "(call_kw (api_func_or api_func (Completion_create env) g')
            [[(''model'', model w'), (''prompt'', prompt)], dict_merge (parameters w') kwargs]
          = Inl e
        \<longrightarrow> openai_api_call env (w, g) prompt api_func kwargs = (Inl e, w', g'))
     \<and> (call_kw (api_func_or api_func (ChatCompletion_create env) g')
            [[(''model'', model w'), (''messages'', messages)], parameters w', kwargs]
          = Inl e
        \<longrightarrow> openai_chat_api_call env (w, g) messages api_func kwargs = (Inl e, w', g'))
     \<and> kept_fields w w'
     \<and> (truthy (original_model w) \<longrightarrow> w' = w)
     \<and> (model w' = model w \<or> hosted_model env w = Inr (model w'))"
proof -
  from assms have self: "fst (snd (claim_global_context env (w, g))) = w'"
    by simp
  have kept: "kept_fields w w'"
    using claim_kept_fields [of w env g] self by simp
  have pinned: "truthy (original_model w) \<longrightarrow> w' = w"
    using claim_pinned [of w env g] self by simp
  have discovered: "model w' = model w \<or> hosted_model env w = Inr (model w')"
    using claim_model [of env w g] self by simp
  from assms kept pinned discovered show ?thesis
    by (simp add: openai_api_call_propagates openai_chat_api_call_propagates)
qed

theorem failed_call_wrapper_state_witness:
  "openai_api_call stub_env (tuned_wrapper, []) (PStr ''Knock knock!'') (Some picky_api)
       [(''max_tokens'', PInt 200)]
     = (Inl (External ''rate limited''), tuned_wrapper,
        [(''model'', PStr ''gpt-x''), (''api_key'', PStr ''sk-test''),
         (''api_base'', PStr ''http://localhost:8000/v1'')])
   \<and> openai_chat_api_call stub_env (pinned_wrapper, []) (prompt_to_chat ''Knock knock!'')
       (Some picky_api) [(''max_tokens'', PInt 200)]
     = (Inl (External ''rate limited''), pinned_wrapper,
        [(''model'', PStr ''gpt-x''), (''api_key'', PStr ''sk-test''),
         (''api_base'', PStr ''http://localhost:8000/v1'')])
   \<and> kept_fields tuned_wrapper tuned_wrapper
   \<and> picky_api [] [(''max_tokens'', PInt 100)] = Inr (PDict [(''max_tokens'', PInt 100)])"
proof -
  let ?g = "[(''model'', PStr ''gpt-x''), (''api_key'', PStr ''sk-test''),
             (''api_base'', PStr ''http://localhost:8000/v1'')]"
  have claimed1: "claim_global_context stub_env (tuned_wrapper, []) = (Inr (), tuned_wrapper, ?g)"
    by code_simp
  have claimed2: "claim_global_context stub_env (pinned_wrapper, []) = (Inr (), pinned_wrapper, ?g)"
    by code_simp
  have call1: "call_kw (api_func_or (Some picky_api) (Completion_create stub_env) ?g)
                 [[(''model'', model tuned_wrapper), (''prompt'', PStr ''Knock knock!'')],
                  dict_merge (parameters tuned_wrapper) [(''max_tokens'', PInt 200)]]
               = Inl (External ''rate limited'')"
    by code_simp
  have call2: "call_kw (api_func_or (Some picky_api) (ChatCompletion_create stub_env) ?g)
                 [[(''model'', model pinned_wrapper),
                   (''messages'', prompt_to_chat ''Knock knock!'')],
                  parameters pinned_wrapper, [(''max_tokens'', PInt 200)]]
               = Inl (External ''rate limited'')"
    by code_simp
  have pinned: "truthy (original_model tuned_wrapper)"
    by (simp add: tuned_wrapper_def)
  have other: "picky_api [] [(''max_tokens'', PInt 100)] = Inr (PDict [(''max_tokens'', PInt 100)])"
    by (simp add: picky_api_def)
  from failed_call_wrapper_state [OF claimed1, where api_func = "Some picky_api"
         and prompt = "PStr ''Knock knock!''" and kwargs = "[(''max_tokens'', PInt 200)]"
         and e = "External ''rate limited''"]
       failed_call_wrapper_state [OF claimed2, where api_func = "Some picky_api"
         and messages = "prompt_to_chat ''Knock knock!''"
         and kwargs = "[(''max_tokens'', PInt 200)]" and e = "External ''rate limited''"]
       call1 call2 pinned other
  show ?thesis by simp
qed

text \<open>
  The claim as first stated fails on a wrapper built without a model: its \<open>model\<close>
  was \<open>model-a\<close>, the endpoint now lists \<open>model-b\<close> first, and after the failed call
  the field holds \<open>model-b\<close>.
\<close>

theorem unpinned_failed_call_counterexample:
  "fst (openai_api_call stub_env (unpinned_wrapper, []) (PStr ''Knock knock!'')
          (Some failing_api) [])
     = Inl (External ''connection refused'')
   \<and> model (fst (snd (openai_api_call stub_env (unpinned_wrapper, []) (PStr ''Knock knock!'')
          (Some failing_api) [])))
     = PStr ''model-b''
   \<and> model unpinned_wrapper = PStr ''model-a''"
  by code_simp

end
